theory Spec2Isabelle
  imports Complex_Main "HOL-Library.Word" "HOL-Library.AList"
begin

section \<open>The keyspace engine (src/server/keyspace.go)\<close>

subsection \<open>Errors, per-key locks and the server state\<close>

text \<open>
  Go errors are values. \<open>ErrorString\<close> is \<open>errors.New\<close> (and \<open>fmt.Errorf\<close> without an
  error argument), \<open>Errorf p e\<close> is \<open>fmt.Errorf(p + "%+v", e)\<close>, \<open>ContextCause\<close> is
  whatever \<open>context.Cause(ctx)\<close> yields once the context is done, and \<open>WrongArgs\<close> is
  \<open>errors.New(utils.WRONG_ARGS_RESPONSE)\<close>, a constant whose text is not under src/.
\<close>

datatype error = ErrorString string | ContextCause | Errorf string error | WrongArgs

text \<open>
  A \<open>sync.RWMutex\<close> as seen by one thread of control: whether a writer holds it, and how
  many readers do. \<open>TryLock\<close> and \<open>TryRLock\<close> return \<open>None\<close> where Go returns false;
  \<open>Unlock\<close> and \<open>RUnlock\<close> return \<open>None\<close> where the Go runtime stops the process with
  "sync: Unlock of unlocked RWMutex".
\<close>

record RWMutex =
  writer :: bool
  readers :: nat

definition TryLock :: "RWMutex \<Rightarrow> RWMutex option" where
  "TryLock m = (if writer m \<or> 0 < readers m then None else Some (m\<lparr>writer := True\<rparr>))"

definition TryRLock :: "RWMutex \<Rightarrow> RWMutex option" where
  "TryRLock m = (if writer m then None else Some (m\<lparr>readers := Suc (readers m)\<rparr>))"

definition Unlock :: "RWMutex \<Rightarrow> RWMutex option" where
  "Unlock m = (if writer m then Some (m\<lparr>writer := False\<rparr>) else None)"

definition RUnlock :: "RWMutex \<Rightarrow> RWMutex option" where
  "RUnlock m = (if 0 < readers m then Some (m\<lparr>readers := readers m - 1\<rparr>) else None)"

text \<open>
  The two fields of \<open>utils.Config\<close> the keyspace reads. \<open>MaxMemory\<close> is a \<open>uint64\<close>.
\<close>

record Config =
  MaxMemory :: "64 word"
  EvictionPolicy :: string

text \<open>
  The server. \<open>store\<close> is \<open>map[string]interface{}\<close>; \<open>keyLocks\<close> and \<open>keyExpiry\<close>
  are Go maps too, kept as association lists because the eviction loops take their
  \<open>len\<close> and range over them (the list order stands for the iteration order of one run).
  Times are integers (nanoseconds); \<open>lfuCache\<close> and \<open>lruCache\<close> are the two eviction
  caches, \<open>lfuMutex\<close> and \<open>lruMutex\<close> tell whether the \<open>sync.Mutex\<close> beside each
  cache is held. \<open>IsInCluster\<close> is what the method of that name returns and
  \<open>changeCount\<close> the counter that \<open>SnapshotEngine.IncrementChangeCount\<close> raises.

  What the code observes of its environment is part of the state: \<open>HeapInuse s i\<close> is the
  value \<open>runtime.ReadMemStats\<close> reports at observation \<open>i\<close>, \<open>Intn s i\<close> the random
  number drawn at observation \<open>i\<close>, and \<open>tick\<close> counts the observations made so far.
  A context is the function telling, for each observation, whether \<open>ctx.Done()\<close> is
  ready. All three are arbitrary, so a theorem about every state covers every behaviour
  of the heap, of the random source and of the context.
\<close>

type_synonym Context = "nat \<Rightarrow> bool"

record 'v Server =
  Config :: Config
  store :: "string \<rightharpoonup> 'v"
  keyLocks :: "(string \<times> RWMutex) list"
  keyExpiry :: "(string \<times> int) list"
  lfuCache :: "(string \<times> nat) list"
  lfuMutex :: bool
  lruCache :: "string list"
  lruMutex :: bool
  IsInCluster :: bool
  changeCount :: nat
  HeapInuse :: "nat \<Rightarrow> 64 word"
  Intn :: "nat \<Rightarrow> nat"
  tick :: nat

definition step :: "'v Server \<Rightarrow> 'v Server" where
  "step s = s\<lparr>tick := Suc (tick s)\<rparr>"

subsection \<open>Locking\<close>

definition KeyExists :: "string \<Rightarrow> 'v Server \<Rightarrow> bool" where
  "KeyExists k s = (map_of (keyLocks s) k \<noteq> None)"

text \<open>
  \<open>KeyLock\<close> polls: on every round the \<open>select\<close> takes \<open>ctx.Done()\<close> when it is ready
  and the default branch otherwise. A round that finds the lock held goes round again,
  so the function need not return: \<open>None\<close> is the run that spins forever.
  The result pair is Go's \<open>(bool, error)\<close>.
\<close>

partial_function (option) KeyLock ::
  "Context \<Rightarrow> string \<Rightarrow> 'v Server \<Rightarrow> ((bool \<times> error option) \<times> 'v Server) option" where
  "KeyLock ctx k s =
     (if ctx (tick s) then Some ((False, Some ContextCause), step s)
      else case map_of (keyLocks s) k of
        None \<Rightarrow> Some ((False, Some (ErrorString (''key '' @ k @ '' not found''))), step s)
      | Some m \<Rightarrow>
          (case TryLock m of
             Some m' \<Rightarrow> Some ((True, None), step (s\<lparr>keyLocks := AList.update k m' (keyLocks s)\<rparr>))
           | None \<Rightarrow> KeyLock ctx k (step s)))"

partial_function (option) KeyRLock ::
  "Context \<Rightarrow> string \<Rightarrow> 'v Server \<Rightarrow> ((bool \<times> error option) \<times> 'v Server) option" where
  "KeyRLock ctx k s =
     (if ctx (tick s) then Some ((False, Some ContextCause), step s)
      else case map_of (keyLocks s) k of
        None \<Rightarrow> Some ((False, Some (ErrorString (''key '' @ k @ '' not found''))), step s)
      | Some m \<Rightarrow>
          (case TryRLock m of
             Some m' \<Rightarrow> Some ((True, None), step (s\<lparr>keyLocks := AList.update k m' (keyLocks s)\<rparr>))
           | None \<Rightarrow> KeyRLock ctx k (step s)))"

text \<open>
  \<open>KeyUnlock\<close> and \<open>KeyRUnlock\<close> return nothing. Unlocking a mutex that is not held
  that way is a fatal error of the Go runtime, which stops the process: \<open>Inl\<close>.
\<close>

datatype fatal = UnlockOfUnlocked | RUnlockOfUnlocked

definition KeyUnlock :: "string \<Rightarrow> 'v Server \<Rightarrow> fatal + 'v Server" where
  "KeyUnlock k s =
     (if KeyExists k s then
        (case Unlock (the (map_of (keyLocks s) k)) of
           None \<Rightarrow> Inl UnlockOfUnlocked
         | Some m' \<Rightarrow> Inr (s\<lparr>keyLocks := AList.update k m' (keyLocks s)\<rparr>))
      else Inr s)"

definition KeyRUnlock :: "string \<Rightarrow> 'v Server \<Rightarrow> fatal + 'v Server" where
  "KeyRUnlock k s =
     (if KeyExists k s then
        (case RUnlock (the (map_of (keyLocks s) k)) of
           None \<Rightarrow> Inl RUnlockOfUnlocked
         | Some m' \<Rightarrow> Inr (s\<lparr>keyLocks := AList.update k m' (keyLocks s)\<rparr>))
      else Inr s)"

subsection \<open>Configuration constants, the heap reading and the memory check\<close>

text \<open>
  Modelled from the spec: the eviction-policy constants of package \<open>utils\<close> are not
  under src/; their values are the policy names of the configuration surface.
\<close>

definition NoEviction :: string where "NoEviction = ''noeviction''"
definition AllKeysLFU :: string where "AllKeysLFU = ''allkeys-lfu''"
definition AllKeysLRU :: string where "AllKeysLRU = ''allkeys-lru''"
definition AllKeysRandom :: string where "AllKeysRandom = ''allkeys-random''"
definition VolatileLFU :: string where "VolatileLFU = ''volatile-lfu''"
definition VolatileLRU :: string where "VolatileLRU = ''volatile-lru''"
definition VolatileRandom :: string where "VolatileRandom = ''volatile-random''"

text \<open>
  \<open>strings.ToLower\<close> on the bytes of an ASCII string: each of the letters A to Z becomes
  its lower-case letter, every other byte stays.
\<close>

definition toLowerChar :: "char \<Rightarrow> char" where
  "toLowerChar c =
     (case map_of (zip ''ABCDEFGHIJKLMNOPQRSTUVWXYZ'' ''abcdefghijklmnopqrstuvwxyz'') c of
        None \<Rightarrow> c
      | Some l \<Rightarrow> l)"

definition ToLower :: "string \<Rightarrow> string" where
  "ToLower s = map toLowerChar s"

text \<open>\<open>runtime.ReadMemStats\<close>: one observation of the heap in use.\<close>

definition ReadMemStats :: "'v Server \<Rightarrow> 64 word \<times> 'v Server" where
  "ReadMemStats s = (HeapInuse s (tick s), step s)"

text \<open>
  \<open>IsMaxMemoryExceeded\<close> (internal/utils.go): no limit when \<open>maxMemory\<close> is 0; below the
  limit at the first reading is not exceeded; otherwise a garbage collection is forced
  and the second reading decides.
\<close>

definition IsMaxMemoryExceeded :: "64 word \<Rightarrow> 'v Server \<Rightarrow> bool \<times> 'v Server" where
  "IsMaxMemoryExceeded maxMemory s =
     (if maxMemory = 0 then (False, s)
      else
        (let (h1, s1) = ReadMemStats s in
         if h1 < maxMemory then (False, s1)
         else (let (h2, s2) = ReadMemStats s1 in (h2 \<ge> maxMemory, s2))))"

subsection \<open>Creating keys\<close>

text \<open>
  \<open>CreateKeyAndLock\<close>: the memory check comes first (the left operand of \<open>&&\<close> is always
  evaluated); a new key gets a fresh mutex that is already write-locked; an existing key
  is locked with \<open>KeyLock\<close>. The creation lock is taken and released within the call.
\<close>

definition CreateKeyAndLock ::
  "Context \<Rightarrow> string \<Rightarrow> 'v Server \<Rightarrow> ((bool \<times> error option) \<times> 'v Server) option" where
  "CreateKeyAndLock ctx k s =
     (let (exceeded, s1) = IsMaxMemoryExceeded (MaxMemory (Config s)) s in
      if exceeded \<and> EvictionPolicy (Config s1) = NoEviction then
        Some ((False, Some (ErrorString ''max memory reached, key not created'')), s1)
      else if \<not> KeyExists k s1 then
        Some ((True, None),
              s1\<lparr>keyLocks := AList.update k \<lparr>writer = True, readers = 0\<rparr> (keyLocks s1)\<rparr>)
      else KeyLock ctx k s1)"

subsection \<open>The eviction caches\<close>

text \<open>
  Modelled from the spec: package \<open>eviction\<close> (\<open>CacheLFU\<close>, \<open>CacheLRU\<close>) is not under
  src/. The LRU cache is the list of keys with the most recently used first; its victim
  is the last one. The LFU cache holds a key with its access count, the most recently
  touched entry first; its victim has the least count and, among those, the earliest
  last access, which is the one nearest the end of the list.
\<close>

definition lru_Update :: "string \<Rightarrow> string list \<Rightarrow> string list" where
  "lru_Update k c = k # removeAll k c"


definition lru_Pop :: "string list \<Rightarrow> string \<times> string list" where
  "lru_Pop c = (last c, butlast c)"

definition lfu_Update :: "string \<Rightarrow> (string \<times> nat) list \<Rightarrow> (string \<times> nat) list" where
  "lfu_Update k c =
     (k, (case map_of c k of None \<Rightarrow> 1 | Some n \<Rightarrow> Suc n)) # AList.delete k c"


fun lfu_victim :: "(string \<times> nat) list \<Rightarrow> string \<times> nat" where
  "lfu_victim [] = ([], 0)"
| "lfu_victim [e] = e"
| "lfu_victim (e # es) = (let v = lfu_victim es in if snd e < snd v then e else v)"

definition lfu_Pop :: "(string \<times> nat) list \<Rightarrow> string \<times> (string \<times> nat) list" where
  "lfu_Pop c = (let v = lfu_victim c in (fst v, AList.delete (fst v) c))"

subsection \<open>Eviction\<close>

text \<open>A mutex is held when a writer or some reader has it; \<open>TryLock\<close> then fails.\<close>

definition held :: "RWMutex \<Rightarrow> bool" where
  "held m = (writer m \<or> 0 < readers m)"

text \<open>
  What a returning \<open>KeyLock\<close> has done: either it took a free lock of the key, or it
  failed with an error and changed nothing; in both cases some observations went by.
\<close>

definition KeyLock_post :: "string \<Rightarrow> 'v Server \<Rightarrow> ((bool \<times> error option) \<times> 'v Server) \<Rightarrow> bool" where
  "KeyLock_post k s y =
     (\<exists>n. (fst y = (True, None) \<and> (\<exists>m. map_of (keyLocks s) k = Some m \<and> \<not> held m \<and>
              snd y = s\<lparr>keyLocks := AList.update k (m\<lparr>writer := True\<rparr>) (keyLocks s), tick := tick s + Suc n\<rparr>))
        \<or> (fst (fst y) = False \<and> snd (fst y) \<noteq> None \<and> snd y = s\<lparr>tick := tick s + Suc n\<rparr>))"

lemma KeyLock_post_step: "KeyLock_post k (step s) y \<Longrightarrow> KeyLock_post k s y"
  unfolding KeyLock_post_def step_def
  apply (erule exE)
  subgoal for n
    apply (rule exI[of _ "Suc n"])
    apply auto
    done
  done

lemma KeyLock_result:
  assumes "KeyLock ctx k s = Some y"
  shows "KeyLock_post k s y"
proof (rule KeyLock.raw_induct[where P="\<lambda>ctx k s y. KeyLock_post k s y", OF _ assms])
  fix KL :: "Context \<Rightarrow> string \<Rightarrow> 'a Server \<Rightarrow> ((bool \<times> error option) \<times> 'a Server) option"
  fix ctx k s y
  assume IH: "\<And>ctx k s y. KL ctx k s = Some y \<Longrightarrow> KeyLock_post k s y"
  assume eq: "(if ctx (tick s) then Some ((False, Some ContextCause), step s)
      else case map_of (keyLocks s) k of
           None \<Rightarrow> Some ((False, Some (ErrorString (''key '' @ k @ '' not found''))), step s)
           | Some m \<Rightarrow>
               (case TryLock m of None \<Rightarrow> KL ctx k (step s)
               | Some m' \<Rightarrow> Some ((True, None), step (s\<lparr>keyLocks := AList.update k m' (keyLocks s)\<rparr>)))) = Some y"
  show "KeyLock_post k s y"
  proof (cases "ctx (tick s)")
    case True
    with eq show ?thesis by (auto simp: KeyLock_post_def step_def intro!: exI[of _ 0])
  next
    case nd: False
    show ?thesis
    proof (cases "map_of (keyLocks s) k")
      case None
      with nd eq show ?thesis by (auto simp: KeyLock_post_def step_def intro!: exI[of _ 0])
    next
      case (Some m)
      show ?thesis
      proof (cases "TryLock m")
        case None
        with nd Some eq have "KL ctx k (step s) = Some y" by simp
        from IH[OF this] show ?thesis by (rule KeyLock_post_step)
      next
        case (Some m')
        with nd \<open>map_of (keyLocks s) k = Some m\<close> eq show ?thesis
          by (auto simp: KeyLock_post_def step_def TryLock_def held_def split: if_splits intro!: exI[of _ 0])
      qed
    qed
  qed
qed

text \<open>
  The three \<open>delete\<close> statements of the eviction loops, and the body the four loops
  share: lock the victim (an error ends the loop), delete it from the store, the expiry
  map and the lock map, force a garbage collection and read the heap again. \<open>Inr b\<close>
  tells whether the heap is now below the limit.
\<close>

definition deleteKey :: "string \<Rightarrow> 'v Server \<Rightarrow> 'v Server" where
  "deleteKey k s =
     s\<lparr>store := (store s)(k := None),
       keyExpiry := AList.delete k (keyExpiry s),
       keyLocks := AList.delete k (keyLocks s)\<rparr>"

definition evictKey ::
  "string \<Rightarrow> Context \<Rightarrow> string \<Rightarrow> 'v Server \<Rightarrow> ((error + bool) \<times> 'v Server) option" where
  "evictKey pfx ctx k s =
     (case KeyLock ctx k s of
        None \<Rightarrow> None
      | Some ((ok, Some err), s1) \<Rightarrow> Some (Inl (Errorf pfx err), s1)
      | Some ((ok, None), s1) \<Rightarrow>
          (let (h, s2) = ReadMemStats (deleteKey k s1)
           in Some (Inr (h < MaxMemory (Config s2)), s2)))"

lemma evictKey_frame:
  assumes "evictKey pfx ctx k s = Some (r, s')"
  shows "lfuCache s' = lfuCache s" "lruCache s' = lruCache s"
  using assms KeyLock_result[of ctx k s]
  by (auto simp: evictKey_def KeyLock_post_def deleteKey_def ReadMemStats_def step_def
      split: option.splits prod.splits)

lemma length_delete_less:
  "k \<in> fst ` set al \<Longrightarrow> length (AList.delete k al) < length al"
proof (induction al)
  case Nil
  then show ?case by simp
next
  case (Cons a al)
  show ?case
  proof (cases "fst a = k")
    case True
    then show ?thesis
      using AList.length_delete_le[of k al] by (cases a) (simp add: less_Suc_eq_le)
  next
    case False
    with Cons.prems have "k \<in> fst ` set al" by auto
    from Cons.IH[OF this] False show ?thesis by (cases a) simp
  qed
qed

lemma length_update_in:
  "k \<in> fst ` set al \<Longrightarrow> length (AList.update k v al) = length al"
  by (induction al) auto

lemma lfu_victim_in: "c \<noteq> [] \<Longrightarrow> lfu_victim c \<in> set c"
  by (induction c rule: lfu_victim.induct) (auto simp: Let_def)

lemma lfu_Pop_shrinks: "c \<noteq> [] \<Longrightarrow> lfu_Pop c = (k, c') \<Longrightarrow> length c' < length c"
  using lfu_victim_in[of c] by (auto simp: lfu_Pop_def Let_def intro!: length_delete_less)

lemma lru_Pop_shrinks: "c \<noteq> [] \<Longrightarrow> lru_Pop c = (k, c') \<Longrightarrow> length c' < length c"
  by (auto simp: lru_Pop_def)

lemma evictKey_shrinks:
  assumes "evictKey pfx ctx k s = Some (Inr b, s')"
  shows "length (keyLocks s') < length (keyLocks s)"
    and "k \<in> fst ` set (keyExpiry s) \<Longrightarrow> length (keyExpiry s') < length (keyExpiry s)"
proof -
  from assms obtain ok s1 where kl: "KeyLock ctx k s = Some ((ok, None), s1)"
    and s': "s' = step (deleteKey k s1)"
    by (auto simp: evictKey_def ReadMemStats_def split: option.splits prod.splits)
  from KeyLock_result[OF kl] obtain m n where m: "map_of (keyLocks s) k = Some m"
    and s1: "s1 = s\<lparr>keyLocks := AList.update k (m\<lparr>writer := True\<rparr>) (keyLocks s), tick := tick s + Suc n\<rparr>"
    by (auto simp: KeyLock_post_def)
  from m have kin: "k \<in> fst ` set (keyLocks s)"
    by (metis map_of_eq_None_iff option.distinct(1))
  have len: "length (AList.update k (m\<lparr>writer := True\<rparr>) (keyLocks s)) = length (keyLocks s)"
    using kin by (rule length_update_in)
  have "k \<in> fst ` set (AList.update k (m\<lparr>writer := True\<rparr>) (keyLocks s))"
    by (simp add: AList.dom_update)
  from length_delete_less[OF this] len
  show "length (keyLocks s') < length (keyLocks s)"
    by (simp add: s' s1 deleteKey_def step_def)
  show "length (keyExpiry s') < length (keyExpiry s)" if "k \<in> fst ` set (keyExpiry s)"
    using length_delete_less[OF that] by (simp add: s' s1 deleteKey_def step_def)
qed

text \<open>
  The four loops of \<open>adjustMemoryUsage\<close>. Each round ends the loop with an error when
  there is no candidate left, and otherwise evicts one victim: the cache's \<open>Pop\<close> for
  the LFU and LRU policies, the key at a random position of the map for the random ones.
\<close>

function evictLFU :: "Context \<Rightarrow> 'v Server \<Rightarrow> (error option \<times> 'v Server) option" where
  "evictLFU ctx s =
     (if length (lfuCache s) = 0 then
        Some (Some (ErrorString ''adjsutMemoryUsage -> LFU cache empty''), s)
      else
        (let (k, c) = lfu_Pop (lfuCache s) in
         case evictKey ''adjustMemoryUsage -> LFU cache eviction: '' ctx k (s\<lparr>lfuCache := c\<rparr>) of
           None \<Rightarrow> None
         | Some (Inl e, s') \<Rightarrow> Some (Some e, s')
         | Some (Inr below, s') \<Rightarrow> if below then Some (None, s') else evictLFU ctx s'))"
  by pat_completeness auto
termination
proof (relation "measure (\<lambda>(ctx, s). length (lfuCache s))", goal_cases)
  case 1
  show ?case by simp
next
  case (2 ctx s x k c y r s' below)
  then show ?case
    using evictKey_frame(1)[of _ ctx k "s\<lparr>lfuCache := c\<rparr>" "Inr below" s'] lfu_Pop_shrinks[of "lfuCache s" k c]
    by auto
qed

function evictLRU :: "Context \<Rightarrow> 'v Server \<Rightarrow> (error option \<times> 'v Server) option" where
  "evictLRU ctx s =
     (if length (lruCache s) = 0 then
        Some (Some (ErrorString ''adjsutMemoryUsage -> LRU cache empty''), s)
      else
        (let (k, c) = lru_Pop (lruCache s) in
         case evictKey ''adjustMemoryUsage -> LRU cache eviction: '' ctx k (s\<lparr>lruCache := c\<rparr>) of
           None \<Rightarrow> None
         | Some (Inl e, s') \<Rightarrow> Some (Some e, s')
         | Some (Inr below, s') \<Rightarrow> if below then Some (None, s') else evictLRU ctx s'))"
  by pat_completeness auto
termination
proof (relation "measure (\<lambda>(ctx, s). length (lruCache s))", goal_cases)
  case 1
  show ?case by simp
next
  case (2 ctx s x k c y r s' below)
  then show ?case
    using evictKey_frame(2)[of _ ctx k "s\<lparr>lruCache := c\<rparr>" "Inr below" s'] lru_Pop_shrinks[of "lruCache s" k c]
    by auto
qed

function evictAllKeysRandom :: "Context \<Rightarrow> 'v Server \<Rightarrow> (error option \<times> 'v Server) option" where
  "evictAllKeysRandom ctx s =
     (if length (keyLocks s) = 0 then
        Some (Some (Errorf ''adjustMemoryUsage -> all keys random: '' (ErrorString ''no keys to evict'')), s)
      else
        (let idx = Intn s (tick s) mod length (keyLocks s);
             k = fst (keyLocks s ! idx) in
         case evictKey ''adjustMemoryUsage -> all keys random: '' ctx k (step s) of
           None \<Rightarrow> None
         | Some (Inl e, s') \<Rightarrow> Some (Some e, s')
         | Some (Inr below, s') \<Rightarrow> if below then Some (None, s') else evictAllKeysRandom ctx s'))"
  by pat_completeness auto
termination
proof (relation "measure (\<lambda>(ctx, s). length (keyLocks s))", goal_cases)
  case 1
  show ?case by simp
next
  case (2 ctx s idx k y r s' below)
  then show ?case
    using evictKey_shrinks(1)[of _ ctx k "step s" below s']
    by (auto simp: step_def)
qed

function evictVolatileRandom :: "Context \<Rightarrow> 'v Server \<Rightarrow> (error option \<times> 'v Server) option" where
  "evictVolatileRandom ctx s =
     (if length (keyExpiry s) = 0 then
        Some (Some (Errorf ''adjustMemoryUsage -> volatile keys random: ''
                      (ErrorString ''no volatile keys to evict'')), s)
      else
        (let idx = Intn s (tick s) mod length (keyExpiry s);
             k = fst (keyExpiry s ! idx) in
         case evictKey ''adjustMemoryUsage -> volatile keys random: '' ctx k (step s) of
           None \<Rightarrow> None
         | Some (Inl e, s') \<Rightarrow> Some (Some e, s')
         | Some (Inr below, s') \<Rightarrow> if below then Some (None, s') else evictVolatileRandom ctx s'))"
  by pat_completeness auto
termination
proof (relation "measure (\<lambda>(ctx, s). length (keyExpiry s))", goal_cases)
  case 1
  show ?case by simp
next
  case (2 ctx s idx k y r s' below)
  have "k \<in> fst ` set (keyExpiry (step s))"
    using 2 by (auto simp: step_def intro!: imageI nth_mem)
  with 2 show ?case
    using evictKey_shrinks(2)[of _ ctx k "step s" below s']
    by (auto simp: step_def)
qed

text \<open>
  \<open>adjustMemoryUsage\<close>: nothing to do without a limit, or below it before or after a
  forced garbage collection; otherwise the loop of the policy. The LFU and LRU branches
  take the cache's mutex first and release it on return; taking a mutex that is
  held blocks for good. Any other policy falls to \<open>default\<close> and returns nil.
\<close>

definition unlockLFU :: "(error option \<times> 'v Server) option \<Rightarrow> (error option \<times> 'v Server) option" where
  "unlockLFU r = map_option (\<lambda>(e, s). (e, s\<lparr>lfuMutex := False\<rparr>)) r"

definition unlockLRU :: "(error option \<times> 'v Server) option \<Rightarrow> (error option \<times> 'v Server) option" where
  "unlockLRU r = map_option (\<lambda>(e, s). (e, s\<lparr>lruMutex := False\<rparr>)) r"

definition adjustMemoryUsage :: "Context \<Rightarrow> 'v Server \<Rightarrow> (error option \<times> 'v Server) option" where
  "adjustMemoryUsage ctx s =
     (if MaxMemory (Config s) = 0 then Some (None, s)
      else
        (let (h1, s1) = ReadMemStats s in
         if h1 < MaxMemory (Config s1) then Some (None, s1)
         else
           (let (h2, s2) = ReadMemStats s1 in
            if h2 < MaxMemory (Config s2) then Some (None, s2)
            else
              (let p = ToLower (EvictionPolicy (Config s2)) in
               if p \<in> set [AllKeysLFU, VolatileLFU] then
                 (if lfuMutex s2 then None
                  else unlockLFU (evictLFU ctx (s2\<lparr>lfuMutex := True\<rparr>)))
               else if p \<in> set [AllKeysLRU, VolatileLRU] then
                 (if lruMutex s2 then None
                  else unlockLRU (evictLRU ctx (s2\<lparr>lruMutex := True\<rparr>)))
               else if p \<in> set [AllKeysRandom] then evictAllKeysRandom ctx s2
               else if p \<in> set [VolatileRandom] then evictVolatileRandom ctx s2
               else Some (None, s2)))))"

text \<open>
  \<open>updateKeyInCache\<close>: the switch touches the cache of the policy under the cache's
  mutex, which stays held (the unlock is deferred) while \<open>adjustMemoryUsage\<close> runs.
\<close>

definition wrapErr :: "(error option \<times> 'v Server) option \<Rightarrow> (error option \<times> 'v Server) option" where
  "wrapErr r =
     map_option (\<lambda>(e, s). (case e of None \<Rightarrow> None | Some err \<Rightarrow> Some (Errorf ''updateKeyInCache: '' err), s)) r"

definition updateKeyInCache ::
  "Context \<Rightarrow> string \<Rightarrow> 'v Server \<Rightarrow> (error option \<times> 'v Server) option" where
  "updateKeyInCache ctx k s =
     (if MaxMemory (Config s) = 0 then Some (None, s)
      else
        (let p = ToLower (EvictionPolicy (Config s)) in
         if p = AllKeysLFU then
           (if lfuMutex s then None
            else unlockLFU (wrapErr (adjustMemoryUsage ctx
                   (s\<lparr>lfuMutex := True, lfuCache := lfu_Update k (lfuCache s)\<rparr>))))
         else if p = AllKeysLRU then
           (if lruMutex s then None
            else unlockLRU (wrapErr (adjustMemoryUsage ctx
                   (s\<lparr>lruMutex := True, lruCache := lru_Update k (lruCache s)\<rparr>))))
         else if p = VolatileLFU then
           (if lfuMutex s then None
            else unlockLFU (wrapErr (adjustMemoryUsage ctx
                   (s\<lparr>lfuMutex := True,
                      lfuCache := (if map_of (keyExpiry s) k \<noteq> None
                                   then lfu_Update k (lfuCache s) else lfuCache s)\<rparr>))))
         else if p = VolatileLRU then
           (if lruMutex s then None
            else unlockLRU (wrapErr (adjustMemoryUsage ctx
                   (s\<lparr>lruMutex := True,
                      lruCache := (if map_of (keyExpiry s) k \<noteq> None
                                   then lru_Update k (lruCache s) else lruCache s)\<rparr>))))
         else wrapErr (adjustMemoryUsage ctx s)))"

subsection \<open>Reading and writing values, expiry\<close>

text \<open>
  \<open>GetValue\<close> touches the cache (an error is only logged) and returns \<open>store[key]\<close>:
  \<open>None\<close> is the nil of a key without value. \<open>SetValue\<close> checks the memory first,
  stores, touches the cache and, outside a cluster, counts the change for the snapshot
  engine; its result is the error or nil. Both expect the caller to hold the key's lock.
\<close>

definition GetValue :: "Context \<Rightarrow> string \<Rightarrow> 'v Server \<Rightarrow> ('v option \<times> 'v Server) option" where
  "GetValue ctx k s =
     (case updateKeyInCache ctx k s of
        None \<Rightarrow> None
      | Some (err, s1) \<Rightarrow> Some (store s1 k, s1))"

definition SetValue ::
  "Context \<Rightarrow> string \<Rightarrow> 'v \<Rightarrow> 'v Server \<Rightarrow> (error option \<times> 'v Server) option" where
  "SetValue ctx k v s =
     (let (exceeded, s1) = IsMaxMemoryExceeded (MaxMemory (Config s)) s in
      if exceeded \<and> EvictionPolicy (Config s1) = NoEviction then
        Some (Some (ErrorString ''max memory reached, key value not set''), s1)
      else
        (case updateKeyInCache ctx k (s1\<lparr>store := (store s1)(k \<mapsto> v)\<rparr>) of
           None \<Rightarrow> None
         | Some (err, s2) \<Rightarrow>
             Some (None, if IsInCluster s2 then s2 else s2\<lparr>changeCount := Suc (changeCount s2)\<rparr>)))"


definition SetKeyExpiry ::
  "Context \<Rightarrow> string \<Rightarrow> int \<Rightarrow> bool \<Rightarrow> 'v Server \<Rightarrow> 'v Server option" where
  "SetKeyExpiry ctx k expire touch s =
     (let s1 = s\<lparr>keyExpiry := AList.update k expire (keyExpiry s)\<rparr> in
      if touch then
        (case updateKeyInCache ctx k s1 of None \<Rightarrow> None | Some (err, s2) \<Rightarrow> Some s2)
      else Some s1)"


text \<open>
  A fresh server, as \<open>NewEchoVault\<close> (src/echovault/echovault.go) makes it: empty store,
  empty lock map, free mutexes. The configuration and the environment are the caller's.
\<close>

definition NewServer :: "Config \<Rightarrow> (nat \<Rightarrow> 64 word) \<Rightarrow> (nat \<Rightarrow> nat) \<Rightarrow> 'v Server" where
  "NewServer cfg heap rnd =
     \<lparr>Config = cfg, store = Map.empty, keyLocks = [], keyExpiry = [],
      lfuCache = [], lfuMutex = False, lruCache = [], lruMutex = False,
      IsInCluster = False, changeCount = 0, HeapInuse = heap, Intn = rnd, tick = 0\<rparr>"

section \<open>What the operations do to one key\<close>

declare evictLFU.simps [simp del] evictLRU.simps [simp del]
  evictAllKeysRandom.simps [simp del] evictVolatileRandom.simps [simp del]

text \<open>
  Across an eviction a key is either kept (its value, lock and expiry are what they
  were) or evicted (its lock was free, and value, lock and expiry are all gone).
\<close>

definition kept :: "string \<Rightarrow> 'v Server \<Rightarrow> 'v Server \<Rightarrow> bool" where
  "kept k s s' =
     (store s' k = store s k \<and> map_of (keyLocks s') k = map_of (keyLocks s) k
      \<and> map_of (keyExpiry s') k = map_of (keyExpiry s) k)"

definition evicted :: "string \<Rightarrow> 'v Server \<Rightarrow> 'v Server \<Rightarrow> bool" where
  "evicted k s s' =
     ((\<exists>m. map_of (keyLocks s) k = Some m \<and> \<not> held m)
      \<and> store s' k = None \<and> map_of (keyLocks s') k = None \<and> map_of (keyExpiry s') k = None)"

definition kept_or_evicted :: "string \<Rightarrow> 'v Server \<Rightarrow> 'v Server \<Rightarrow> bool" where
  "kept_or_evicted k s s' = (kept k s s' \<or> evicted k s s')"

lemma kept_refl [simp]: "kept k s s"
  by (simp add: kept_def)

lemma koe_refl [simp]: "kept_or_evicted k s s"
  by (simp add: kept_or_evicted_def)











definition res_koe :: "string \<Rightarrow> 'v Server \<Rightarrow> ('a \<times> 'v Server) option \<Rightarrow> bool" where
  "res_koe k s r = (\<forall>e s'. r = Some (e, s') \<longrightarrow> kept_or_evicted k s s')"



lemma res_koe_None [simp]: "res_koe k s None"
  by (simp add: res_koe_def)























lemmas policy_defs = NoEviction_def AllKeysLFU_def AllKeysLRU_def AllKeysRandom_def
  VolatileLFU_def VolatileLRU_def VolatileRandom_def




lemma GetValue_no_limit:
  "MaxMemory (Config s) = 0 \<Longrightarrow> GetValue ctx k s = Some (store s k, s)"
  by (simp add: GetValue_def updateKeyInCache_def)




section \<open>Example servers\<close>

text \<open>
  \<open>Background\<close> is \<open>context.Background()\<close>, which is never done. The heap of the examples
  is either steady or jumps over the limit at the fourth observation.
\<close>

definition Background :: Context where "Background i = False"
definition steadyHeap :: "64 word \<Rightarrow> nat \<Rightarrow> 64 word" where "steadyHeap h i = h"
definition risingHeap :: "nat \<Rightarrow> 64 word" where "risingHeap i = (if i < 3 then 0 else 100)"
definition noRandom :: "nat \<Rightarrow> nat" where "noRandom i = 0"

text \<open>
  A server with a limit of one byte and random eviction: fresh (\<open>ex0\<close>), after
  \<open>CreateKeyAndLock k\<close> (\<open>ex1\<close>), after \<open>SetValue k v\<close> (\<open>ex2\<close>), after
  \<open>KeyUnlock k\<close> (\<open>ex3\<close>) and after an \<open>adjustMemoryUsage\<close> that finds the heap over
  the limit (\<open>ex4\<close>).
\<close>

definition ex0 :: "string Server" where
  "ex0 = NewServer \<lparr>MaxMemory = 1, EvictionPolicy = ''allkeys-random''\<rparr> risingHeap noRandom"

definition ex1 :: "string Server" where
  "ex1 = ex0\<lparr>keyLocks := [(''k'', \<lparr>writer = True, readers = 0\<rparr>)], tick := 1\<rparr>"

definition ex2 :: "string Server" where
  "ex2 = ex0\<lparr>store := [''k'' \<mapsto> ''v''], keyLocks := [(''k'', \<lparr>writer = True, readers = 0\<rparr>)],
              changeCount := 1, tick := 3\<rparr>"

definition ex3 :: "string Server" where
  "ex3 = ex0\<lparr>store := [''k'' \<mapsto> ''v''], keyLocks := [(''k'', \<lparr>writer = False, readers = 0\<rparr>)],
              changeCount := 1, tick := 3\<rparr>"

definition ex4 :: "string Server" where
  "ex4 = ex0\<lparr>store := Map.empty, keyLocks := [], changeCount := 1, tick := 8\<rparr>"

text \<open>
  A server without memory limit: fresh (\<open>un0\<close>), after \<open>CreateKeyAndLock k\<close> (\<open>un1\<close>),
  after \<open>SetValue k v\<close> (\<open>un2\<close>), after \<open>SetKeyExpiry k 5\<close> (\<open>un3\<close>), after
  \<open>KeyUnlock k\<close> (\<open>un4\<close>) and after \<open>KeyRLock k\<close> (\<open>un5\<close>).
\<close>

definition un0 :: "string Server" where
  "un0 = NewServer \<lparr>MaxMemory = 0, EvictionPolicy = ''noeviction''\<rparr> (steadyHeap 100) noRandom"

definition un1 :: "string Server" where
  "un1 = un0\<lparr>keyLocks := [(''k'', \<lparr>writer = True, readers = 0\<rparr>)]\<rparr>"

definition un2 :: "string Server" where
  "un2 = un0\<lparr>store := [''k'' \<mapsto> ''v''], keyLocks := [(''k'', \<lparr>writer = True, readers = 0\<rparr>)],
              changeCount := 1\<rparr>"

definition un3 :: "string Server" where
  "un3 = un0\<lparr>store := [''k'' \<mapsto> ''v''], keyLocks := [(''k'', \<lparr>writer = True, readers = 0\<rparr>)],
              keyExpiry := [(''k'', 5)], changeCount := 1\<rparr>"

definition un4 :: "string Server" where
  "un4 = un0\<lparr>store := [''k'' \<mapsto> ''v''], keyLocks := [(''k'', \<lparr>writer = False, readers = 0\<rparr>)],
              keyExpiry := [(''k'', 5)], changeCount := 1\<rparr>"

definition un5 :: "string Server" where
  "un5 = un0\<lparr>store := [''k'' \<mapsto> ''v''], keyLocks := [(''k'', \<lparr>writer = False, readers = 1\<rparr>)],
              keyExpiry := [(''k'', 5)], changeCount := 1, tick := 1\<rparr>"

text \<open>A server at its limit that must not evict, and one whose policy is volatile-ttl.\<close>

definition full0 :: "string Server" where
  "full0 = NewServer \<lparr>MaxMemory = 1, EvictionPolicy = ''noeviction''\<rparr> (steadyHeap 100) noRandom"

definition ttl0 :: "string Server" where
  "ttl0 = (NewServer \<lparr>MaxMemory = 1, EvictionPolicy = ''volatile-ttl''\<rparr> (steadyHeap 100) noRandom)
            \<lparr>store := [''k'' \<mapsto> ''v''], keyLocks := [(''k'', \<lparr>writer = False, readers = 0\<rparr>)],
             keyExpiry := [(''k'', 5)]\<rparr>"

lemmas ex_defs = ex0_def ex1_def ex2_def ex3_def ex4_def un0_def un1_def un2_def un3_def un4_def
  un5_def full0_def ttl0_def NewServer_def Background_def risingHeap_def steadyHeap_def noRandom_def

lemmas run_defs = CreateKeyAndLock_def SetValue_def GetValue_def SetKeyExpiry_def KeyUnlock_def
  KeyRUnlock_def IsMaxMemoryExceeded_def ReadMemStats_def step_def KeyExists_def policy_defs
  updateKeyInCache_def adjustMemoryUsage_def ToLower_def toLowerChar_def wrapErr_def
  Unlock_def RUnlock_def TryLock_def TryRLock_def evictKey_def deleteKey_def held_def















section \<open>The claims about the keyspace\<close>







text \<open>
  C3. With a memory limit, the heap in use at or above it (at the reading before and at
  the reading after the garbage collection that the check forces) and the policy
  noeviction, \<open>CreateKeyAndLock\<close> returns its out-of-memory error without creating the
  key and \<open>SetValue\<close> returns its out-of-memory error without storing the value: the
  server is what it was, two heap readings later.
\<close>

theorem noeviction_over_limit_fails:
  assumes "0 < MaxMemory (Config s)"
    and "MaxMemory (Config s) \<le> HeapInuse s (tick s)"
    and "MaxMemory (Config s) \<le> HeapInuse s (Suc (tick s))"
    and "EvictionPolicy (Config s) = NoEviction"
  shows "CreateKeyAndLock ctx k s
           = Some ((False, Some (ErrorString ''max memory reached, key not created'')),
                   s\<lparr>tick := tick s + 2\<rparr>)
       \<and> SetValue ctx k v s
           = Some (Some (ErrorString ''max memory reached, key value not set''),
                   s\<lparr>tick := tick s + 2\<rparr>)"
  using assms
  by (auto simp: CreateKeyAndLock_def SetValue_def IsMaxMemoryExceeded_def ReadMemStats_def
        step_def Let_def not_less[symmetric])

theorem noeviction_over_limit_fails_witness:
  "0 < MaxMemory (Config full0) \<and> MaxMemory (Config full0) \<le> HeapInuse full0 (tick full0)
   \<and> MaxMemory (Config full0) \<le> HeapInuse full0 (Suc (tick full0))
   \<and> EvictionPolicy (Config full0) = NoEviction
   \<and> CreateKeyAndLock Background ''k'' full0
        = Some ((False, Some (ErrorString ''max memory reached, key not created'')),
                full0\<lparr>tick := tick full0 + 2\<rparr>)
   \<and> SetValue Background ''k'' ''v'' full0
        = Some (Some (ErrorString ''max memory reached, key value not set''),
                full0\<lparr>tick := tick full0 + 2\<rparr>)"
proof -
  have a: "0 < MaxMemory (Config full0)" by (simp add: ex_defs)
  have b: "MaxMemory (Config full0) \<le> HeapInuse full0 (tick full0)" by (simp add: ex_defs)
  have c: "MaxMemory (Config full0) \<le> HeapInuse full0 (Suc (tick full0))" by (simp add: ex_defs)
  have d: "EvictionPolicy (Config full0) = NoEviction" by (simp add: ex_defs NoEviction_def)
  from noeviction_over_limit_fails[OF a b c d, of Background "''k''" "''v''"] a b c d
  show ?thesis by blast
qed

text \<open>
  C6, as the code has it. \<open>adjustMemoryUsage\<close> has no branch for volatile-ttl: when the
  heap stays at or above the limit after the garbage collection it returns nil and
  evicts nothing; the server is what it was, two heap readings later.
\<close>

theorem volatile_ttl_evicts_nothing:
  assumes "ToLower (EvictionPolicy (Config s)) = ''volatile-ttl''"
    and "MaxMemory (Config s) \<noteq> 0"
    and "MaxMemory (Config s) \<le> HeapInuse s (tick s)"
    and "MaxMemory (Config s) \<le> HeapInuse s (Suc (tick s))"
  shows "adjustMemoryUsage ctx s = Some (None, s\<lparr>tick := tick s + 2\<rparr>)"
  using assms
  by (auto simp: adjustMemoryUsage_def ReadMemStats_def step_def Let_def policy_defs not_less[symmetric])

theorem volatile_ttl_evicts_nothing_witness:
  "ToLower (EvictionPolicy (Config ttl0)) = ''volatile-ttl'' \<and> MaxMemory (Config ttl0) \<noteq> 0
   \<and> MaxMemory (Config ttl0) \<le> HeapInuse ttl0 (tick ttl0)
   \<and> MaxMemory (Config ttl0) \<le> HeapInuse ttl0 (Suc (tick ttl0))
   \<and> adjustMemoryUsage Background ttl0 = Some (None, ttl0\<lparr>tick := tick ttl0 + 2\<rparr>)"
proof -
  have a: "ToLower (EvictionPolicy (Config ttl0)) = ''volatile-ttl''"
    by (simp add: ex_defs ToLower_def toLowerChar_def)
  have b: "MaxMemory (Config ttl0) \<noteq> 0" by (simp add: ex_defs)
  have c: "MaxMemory (Config ttl0) \<le> HeapInuse ttl0 (tick ttl0)" by (simp add: ex_defs)
  have d: "MaxMemory (Config ttl0) \<le> HeapInuse ttl0 (Suc (tick ttl0))" by (simp add: ex_defs)
  from volatile_ttl_evicts_nothing[OF a b c d, of Background] a b c d show ?thesis by blast
qed

text \<open>
  C6 as stated fails: under volatile-ttl, with the heap over the limit after the garbage
  collection and a key that has an expiry and a free lock, \<open>adjustMemoryUsage\<close> returns
  nil and the key, its value and its expiry are still there.
\<close>

theorem volatile_ttl_counterexample:
  "EvictionPolicy (Config ttl0) = ''volatile-ttl'' \<and> map_of (keyExpiry ttl0) ''k'' = Some 5
   \<and> MaxMemory (Config ttl0) \<le> HeapInuse ttl0 (tick ttl0)
   \<and> MaxMemory (Config ttl0) \<le> HeapInuse ttl0 (Suc (tick ttl0))
   \<and> adjustMemoryUsage Background ttl0 = Some (None, ttl0\<lparr>tick := 2\<rparr>)
   \<and> KeyExists ''k'' (ttl0\<lparr>tick := 2\<rparr>) \<and> store (ttl0\<lparr>tick := 2\<rparr>) ''k'' = Some ''v''
   \<and> map_of (keyExpiry (ttl0\<lparr>tick := 2\<rparr>)) ''k'' = Some 5"
  by (simp add: ex_defs run_defs)



text \<open>
  C10. For a key that has no entry in the lock map, \<open>KeyUnlock\<close> and \<open>KeyRUnlock\<close> do
  nothing: they return, without the runtime's fatal error, and the server (lock map and
  store included) is what it was.
\<close>

theorem unlock_absent_key_noop:
  "map_of (keyLocks s) k = None \<Longrightarrow> KeyUnlock k s = Inr s \<and> KeyRUnlock k s = Inr s"
  by (simp add: KeyUnlock_def KeyRUnlock_def KeyExists_def)

theorem unlock_absent_key_noop_witness:
  "map_of (keyLocks (NewServer \<lparr>MaxMemory = 0, EvictionPolicy = ''noeviction''\<rparr> (\<lambda>i. 0) (\<lambda>i. 0)
                      :: string Server)) ''k'' = None
   \<and> KeyUnlock ''k'' (NewServer \<lparr>MaxMemory = 0, EvictionPolicy = ''noeviction''\<rparr> (\<lambda>i. 0) (\<lambda>i. 0)
                      :: string Server)
       = Inr (NewServer \<lparr>MaxMemory = 0, EvictionPolicy = ''noeviction''\<rparr> (\<lambda>i. 0) (\<lambda>i. 0))
   \<and> KeyRUnlock ''k'' (NewServer \<lparr>MaxMemory = 0, EvictionPolicy = ''noeviction''\<rparr> (\<lambda>i. 0) (\<lambda>i. 0)
                      :: string Server)
       = Inr (NewServer \<lparr>MaxMemory = 0, EvictionPolicy = ''noeviction''\<rparr> (\<lambda>i. 0) (\<lambda>i. 0))"
  using unlock_absent_key_noop
          [of "NewServer \<lparr>MaxMemory = 0, EvictionPolicy = ''noeviction''\<rparr> (\<lambda>i. 0) (\<lambda>i. 0) :: string Server"
              "''k''"]
  by (simp add: NewServer_def)

section \<open>The set commands (src/modules/set/commands.go)\<close>

subsection \<open>Values and sets\<close>

text \<open>
  What the store holds for the set commands: a \<open>*Set\<close>, or something that is not a set
  (a string, a number).

  Modelled from the spec: the type \<open>Set\<close> and its methods are not under src/. A set of
  strings holds each member once; it is kept as the list of its members, in the order
  \<open>GetAll\<close> gives them, which no caller may rely on.
\<close>

datatype data = StringV string | IntV int | SetV "string list"

definition NewSet :: "string list \<Rightarrow> string list" where
  "NewSet elems = remdups elems"

definition Cardinality :: "string list \<Rightarrow> nat" where
  "Cardinality members = length members"

definition GetAll :: "string list \<Rightarrow> string list" where
  "GetAll members = members"

definition Contains :: "string list \<Rightarrow> string \<Rightarrow> bool" where
  "Contains members e = (e \<in> set members)"

text \<open>\<open>Add\<close> returns the number of members that were not in the set, and the new set.\<close>

definition Add :: "string list \<Rightarrow> string list \<Rightarrow> nat \<times> string list" where
  "Add members elems =
     (let new = filter (\<lambda>e. \<not> Contains members e) (remdups elems)
      in (length new, members @ new))"

text \<open>\<open>Intersection\<close> with a limit: 0 is no limit, otherwise at most that many members.\<close>

definition Intersection :: "string list \<Rightarrow> string list list \<Rightarrow> nat \<Rightarrow> string list" where
  "Intersection members others limit =
     (let r = filter (\<lambda>e. \<forall>other \<in> set others. Contains other e) members
      in if limit = 0 then r else take limit r)"

subsection \<open>Replies\<close>

text \<open>\<open>%d\<close> of a length or a cardinality, and the line end of RESP.\<close>

definition CRLF :: string where
  "CRLF = [CHR 0x0D, CHR 0x0A]"

definition digit :: "nat \<Rightarrow> char" where
  "digit n = ''0123456789'' ! n"

function showNat :: "nat \<Rightarrow> string" where
  "showNat n = (if n < 10 then [digit n] else showNat (n div 10) @ [digit (n mod 10)])"
  by pat_completeness auto
termination
  by (relation "measure id") auto

declare showNat.simps [simp del]

text \<open>
  The array reply of \<open>handleSMEMBERS\<close>: \<open>*n\<close>, then for each element \<open>\r\n$len\r\nelem\<close>,
  and after the last element \<open>\r\n\r\n\<close>. With no element the reply is \<open>*0\<close> alone.
\<close>

definition bulkArray :: "string list \<Rightarrow> string" where
  "bulkArray elems =
     ''*'' @ showNat (length elems)
     @ concat (map (\<lambda>e. CRLF @ ''$'' @ showNat (length e) @ CRLF @ e) elems)
     @ (if elems = [] then [] else CRLF @ CRLF)"

subsection \<open>Handlers\<close>

text \<open>
  A handler returns Go's \<open>([]byte, error)\<close> and the server it leaves: \<open>Inl\<close> the error,
  \<open>Inr\<close> the reply. Around that, \<open>Inl\<close> is the fatal error of an unlock that does not
  match a lock, and \<open>None\<close> the run that does not return.
\<close>

type_synonym reply = "error + string"
type_synonym handled = "(fatal + reply \<times> data Server) option"

text \<open>
  \<open>handleSADD\<close>. On a key that does not exist the set is made from the members, the key
  is created and locked, the value set (the result of \<open>SetValue\<close> is dropped), the key
  unlocked, and the reply is the number of member arguments. On a key that exists the
  members are added to the set the key holds, and the reply is the count \<open>Add\<close> returns;
  the deferred unlock runs last.
\<close>

definition handleSADD :: "Context \<Rightarrow> string list \<Rightarrow> data Server \<Rightarrow> handled" where
  "handleSADD ctx cmd s =
     (if length cmd < 3 then Some (Inr (Inl WrongArgs, s))
      else
        (let key = cmd ! 1 in
         if \<not> KeyExists key s then
           (let members = NewSet (drop 2 cmd) in
            case CreateKeyAndLock ctx key s of
              None \<Rightarrow> None
            | Some ((ok, err), s1) \<Rightarrow>
                if \<not> ok \<and> err \<noteq> None then Some (Inr (Inl (the err), s1))
                else
                  (case SetValue ctx key (SetV members) s1 of
                     None \<Rightarrow> None
                   | Some (e, s2) \<Rightarrow>
                       (case KeyUnlock key s2 of
                          Inl f \<Rightarrow> Some (Inl f)
                        | Inr s3 \<Rightarrow>
                            Some (Inr (Inr ('':'' @ showNat (length (drop 2 cmd)) @ CRLF @ CRLF), s3)))))
         else
           (case KeyLock ctx key s of
              None \<Rightarrow> None
            | Some ((ok, Some err), s1) \<Rightarrow> Some (Inr (Inl err, s1))
            | Some ((ok, None), s1) \<Rightarrow>
                (case GetValue ctx key s1 of
                   None \<Rightarrow> None
                 | Some (v, s2) \<Rightarrow>
                     (let (r, s3) =
                        (case v of
                           Some (SetV members) \<Rightarrow>
                             (let (count, members') = Add members (drop 2 cmd) in
                              (Inr ('':'' @ showNat count @ CRLF @ [CHR 0x0A]),
                               s2\<lparr>store := (store s2)(key \<mapsto> SetV members')\<rparr>))
                         | _ \<Rightarrow>
                             (Inl (ErrorString (''value at key '' @ key @ '' is not a set'')), s2))
                      in case KeyUnlock key s3 of
                           Inl f \<Rightarrow> Some (Inl f)
                         | Inr s4 \<Rightarrow> Some (Inr (r, s4)))))))"

text \<open>
  The three loops of \<open>handleSINTERSTORE\<close>. \<open>rlockAll\<close> read-locks the source keys in
  turn and notes each in \<open>locks\<close> (a Go map: a key is noted once); it stops with the
  empty-array reply at a key that does not exist and with the error of a lock that
  fails. \<open>getSets\<close> collects the sets of the noted keys and stops at a value that is not
  a set. \<open>runlockAll\<close> is the deferred function: one \<open>KeyRUnlock\<close> for each noted key.
  The two ranges over the map \<open>locks\<close> are taken in the order the keys were noted.
\<close>

fun rlockAll ::
  "Context \<Rightarrow> string list \<Rightarrow> string list \<Rightarrow> data Server
    \<Rightarrow> (reply option \<times> string list \<times> data Server) option" where
  "rlockAll ctx [] locks s = Some (None, locks, s)"
| "rlockAll ctx (key # keys) locks s =
     (if \<not> KeyExists key s then Some (Some (Inr (''*0'' @ CRLF @ CRLF)), locks, s)
      else
        (case KeyRLock ctx key s of
           None \<Rightarrow> None
         | Some ((ok, Some err), s1) \<Rightarrow> Some (Some (Inl err), locks, s1)
         | Some ((ok, None), s1) \<Rightarrow>
             rlockAll ctx keys (if key \<in> set locks then locks else locks @ [key]) s1))"

fun getSets ::
  "Context \<Rightarrow> string list \<Rightarrow> data Server \<Rightarrow> ((error + string list list) \<times> data Server) option" where
  "getSets ctx [] s = Some (Inr [], s)"
| "getSets ctx (key # keys) s =
     (case GetValue ctx key s of
        None \<Rightarrow> None
      | Some (Some (SetV members), s1) \<Rightarrow>
          (case getSets ctx keys s1 of
             None \<Rightarrow> None
           | Some (Inl e, s2) \<Rightarrow> Some (Inl e, s2)
           | Some (Inr sets, s2) \<Rightarrow> Some (Inr (members # sets), s2))
      | Some (v, s1) \<Rightarrow>
          Some (Inl (ErrorString (''value at key '' @ key @ '' is not a set'')), s1))"

fun runlockAll :: "string list \<Rightarrow> data Server \<Rightarrow> fatal + data Server" where
  "runlockAll [] s = Inr s"
| "runlockAll (key # keys) s =
     (case KeyRUnlock key s of Inl f \<Rightarrow> Inl f | Inr s1 \<Rightarrow> runlockAll keys s1)"

definition deferred :: "string list \<Rightarrow> handled \<Rightarrow> handled" where
  "deferred locks h =
     (case h of
        None \<Rightarrow> None
      | Some (Inl f) \<Rightarrow> Some (Inl f)
      | Some (Inr (r, s)) \<Rightarrow>
          (case runlockAll locks s of Inl f \<Rightarrow> Some (Inl f) | Inr s1 \<Rightarrow> Some (Inr (r, s1))))"

definition handleSINTERSTORE :: "Context \<Rightarrow> string list \<Rightarrow> data Server \<Rightarrow> handled" where
  "handleSINTERSTORE ctx cmd s =
     (if length cmd < 3 then Some (Inr (Inl WrongArgs, s))
      else
        (case rlockAll ctx (drop 2 cmd) [] s of
           None \<Rightarrow> None
         | Some (Some r, locks, s1) \<Rightarrow> deferred locks (Some (Inr (r, s1)))
         | Some (None, locks, s1) \<Rightarrow>
             deferred locks
               (case getSets ctx locks s1 of
                  None \<Rightarrow> None
                | Some (Inl e, s2) \<Rightarrow> Some (Inr (Inl e, s2))
                | Some (Inr [], s2) \<Rightarrow>
                    Some (Inr (Inl (ErrorString ''not enough sets in the keys provided''), s2))
                | Some (Inr (set0 # sets), s2) \<Rightarrow>
                    (let intersect = Intersection set0 sets 0;
                         destination = cmd ! 1 in
                     case (if KeyExists destination s2 then KeyLock ctx destination s2
                           else CreateKeyAndLock ctx destination s2) of
                       None \<Rightarrow> None
                     | Some ((ok, Some err), s3) \<Rightarrow> Some (Inr (Inl err, s3))
                     | Some ((ok, None), s3) \<Rightarrow>
                         (case SetValue ctx destination (SetV intersect) s3 of
                            None \<Rightarrow> None
                          | Some (e, s4) \<Rightarrow>
                              (case KeyUnlock destination s4 of
                                 Inl f \<Rightarrow> Some (Inl f)
                               | Inr s5 \<Rightarrow>
                                   Some (Inr (Inr ('':'' @ showNat (Cardinality intersect) @ CRLF @ CRLF),
                                              s5))))))))"

definition handleSMEMBERS :: "Context \<Rightarrow> string list \<Rightarrow> data Server \<Rightarrow> handled" where
  "handleSMEMBERS ctx cmd s =
     (if length cmd \<noteq> 2 then Some (Inr (Inl WrongArgs, s))
      else
        (let key = cmd ! 1 in
         if \<not> KeyExists key s then Some (Inr (Inr (''*0'' @ CRLF @ CRLF), s))
         else
           (case KeyRLock ctx key s of
              None \<Rightarrow> None
            | Some ((ok, Some err), s1) \<Rightarrow> Some (Inr (Inl err, s1))
            | Some ((ok, None), s1) \<Rightarrow>
                deferred [key]
                  (case GetValue ctx key s1 of
                     None \<Rightarrow> None
                   | Some (Some (SetV members), s2) \<Rightarrow>
                       Some (Inr (Inr (bulkArray (GetAll members)), s2))
                   | Some (v, s2) \<Rightarrow>
                       Some (Inr (Inl (ErrorString (''value at key '' @ key @ '' is not a set'')), s2))))))"


lemma SetValue_no_limit:
  "MaxMemory (Config s) = 0 \<Longrightarrow>
   SetValue ctx k v s
     = Some (None, s\<lparr>store := (store s)(k \<mapsto> v),
                     changeCount := (if IsInCluster s then changeCount s else Suc (changeCount s))\<rparr>)"
  by (simp add: SetValue_def IsMaxMemoryExceeded_def updateKeyInCache_def)

lemma CreateKeyAndLock_no_limit:
  "MaxMemory (Config s) = 0 \<Longrightarrow>
   CreateKeyAndLock ctx k s
     = (if \<not> KeyExists k s
        then Some ((True, None), s\<lparr>keyLocks := AList.update k \<lparr>writer = True, readers = 0\<rparr> (keyLocks s)\<rparr>)
        else KeyLock ctx k s)"
  by (simp add: CreateKeyAndLock_def IsMaxMemoryExceeded_def)

lemma KeyLock_free:
  "\<not> ctx (tick s) \<Longrightarrow> map_of (keyLocks s) k = Some m \<Longrightarrow> \<not> writer m \<Longrightarrow> readers m = 0 \<Longrightarrow>
   KeyLock ctx k s
     = Some ((True, None), step (s\<lparr>keyLocks := AList.update k (m\<lparr>writer := True\<rparr>) (keyLocks s)\<rparr>))"
  by (subst KeyLock.simps) (simp add: TryLock_def)

lemma KeyRLock_free:
  "\<not> ctx (tick s) \<Longrightarrow> map_of (keyLocks s) k = Some m \<Longrightarrow> \<not> writer m \<Longrightarrow>
   KeyRLock ctx k s
     = Some ((True, None),
             step (s\<lparr>keyLocks := AList.update k (m\<lparr>readers := Suc (readers m)\<rparr>) (keyLocks s)\<rparr>))"
  by (subst KeyRLock.simps) (simp add: TryRLock_def)

lemmas set_run_defs = handleSINTERSTORE_def handleSMEMBERS_def handleSADD_def deferred_def
  KeyExists_def KeyUnlock_def KeyRUnlock_def Unlock_def RUnlock_def step_def
  AList.update_conv' GetValue_no_limit SetValue_no_limit CreateKeyAndLock_no_limit
  KeyLock_free KeyRLock_free Let_def Cardinality_def Intersection_def Contains_def GetAll_def







definition sets1 :: "data Server" where
  "sets1 = NewServer \<lparr>MaxMemory = 0, EvictionPolicy = ''noeviction''\<rparr> (steadyHeap 0) noRandom"



text \<open>
  C9. \<open>SADD\<close> on a key that does not exist: whenever it replies, the reply is the integer
  \<open>len(cmd) - 2\<close>, the number of member arguments with duplicates counted; without a
  memory limit it does reply, and the key then holds the set of the members. That set
  has each member once, so its cardinality is at most the reply, and less than the reply
  as soon as a member is repeated.
\<close>

theorem sadd_new_key_reply:
  assumes "3 \<le> length cmd" and "\<not> KeyExists (cmd ! 1) s"
  shows "(\<forall>r s'. handleSADD ctx cmd s = Some (Inr (Inr r, s'))
            \<longrightarrow> r = '':'' @ showNat (length cmd - 2) @ CRLF @ CRLF)
       \<and> (MaxMemory (Config s) = 0
            \<longrightarrow> (\<exists>s'. handleSADD ctx cmd s
                        = Some (Inr (Inr ('':'' @ showNat (length cmd - 2) @ CRLF @ CRLF), s'))
                      \<and> store s' (cmd ! 1) = Some (SetV (NewSet (drop 2 cmd)))))
       \<and> Cardinality (NewSet (drop 2 cmd)) \<le> length cmd - 2
       \<and> (\<not> distinct (drop 2 cmd) \<longrightarrow> Cardinality (NewSet (drop 2 cmd)) < length cmd - 2)"
proof -
  have a: "\<forall>r s'. handleSADD ctx cmd s = Some (Inr (Inr r, s'))
            \<longrightarrow> r = '':'' @ showNat (length cmd - 2) @ CRLF @ CRLF"
    using assms
    by (auto simp: handleSADD_def Let_def split: option.splits prod.splits sum.splits if_splits)
  have b: "\<exists>s'. handleSADD ctx cmd s
                  = Some (Inr (Inr ('':'' @ showNat (length cmd - 2) @ CRLF @ CRLF), s'))
                \<and> store s' (cmd ! 1) = Some (SetV (NewSet (drop 2 cmd)))"
    if "MaxMemory (Config s) = 0"
    using assms that by (simp add: set_run_defs)
  have c: "Cardinality (NewSet (drop 2 cmd)) \<le> length cmd - 2"
    using length_remdups_leq[of "drop 2 cmd"] by (simp add: Cardinality_def NewSet_def)
  have d: "Cardinality (NewSet (drop 2 cmd)) < length cmd - 2" if "\<not> distinct (drop 2 cmd)"
  proof -
    have "length (remdups (drop 2 cmd)) \<noteq> length (drop 2 cmd)"
      using that length_remdups_eq[of "drop 2 cmd"] remdups_id_iff_distinct[of "drop 2 cmd"]
      by blast
    with length_remdups_leq[of "drop 2 cmd"] show ?thesis
      by (simp add: Cardinality_def NewSet_def)
  qed
  from a b c d show ?thesis by blast
qed

theorem sadd_new_key_reply_witness:
  "3 \<le> length [''SADD'', ''k'', ''a'', ''a''] \<and> \<not> KeyExists ([''SADD'', ''k'', ''a'', ''a''] ! 1) sets1
   \<and> MaxMemory (Config sets1) = 0 \<and> \<not> distinct (drop 2 [''SADD'', ''k'', ''a'', ''a''])
   \<and> (\<exists>s'. handleSADD Background [''SADD'', ''k'', ''a'', ''a''] sets1
              = Some (Inr (Inr ('':2'' @ CRLF @ CRLF), s'))
            \<and> store s' ''k'' = Some (SetV [''a'']))
   \<and> Cardinality (NewSet [''a'', ''a'']) = 1"
proof -
  have a: "3 \<le> length [''SADD'', ''k'', ''a'', ''a'']" by simp
  have b: "\<not> KeyExists ([''SADD'', ''k'', ''a'', ''a''] ! 1) sets1"
    by (simp add: sets1_def NewServer_def KeyExists_def)
  have c: "MaxMemory (Config sets1) = 0" by (simp add: sets1_def NewServer_def)
  have d: "\<not> distinct (drop 2 [''SADD'', ''k'', ''a'', ''a''])" by simp
  have e: "showNat (length [''SADD'', ''k'', ''a'', ''a''] - 2) = ''2''"
    by (simp add: showNat.simps digit_def)
  have f: "NewSet (drop 2 [''SADD'', ''k'', ''a'', ''a'']) = [''a'']" by (simp add: NewSet_def)
  have g: "Cardinality (NewSet [''a'', ''a'']) = 1" by (simp add: NewSet_def Cardinality_def)
  from sadd_new_key_reply[OF a b, where ctx = Background] a b c d e f g show ?thesis
    by (simp del: length_Cons drop_Suc_Cons) 
qed

section \<open>Authorization (package acl)\<close>

subsection \<open>Users, connections and command descriptors\<close>

text \<open>
  The \<open>User\<close> of src/acl/acl.go (without its passwords, which authorization does not
  read) and \<open>CreateUser\<close>, which allows everything.
\<close>

record User =
  Username :: string
  Enabled :: bool
  IncludedCategories :: "string list"
  ExcludedCategories :: "string list"
  IncludedCommands :: "string list"
  ExcludedCommands :: "string list"
  IncludedKeys :: "string list"
  ExcludedKeys :: "string list"
  IncludedReadKeys :: "string list"
  IncludedWriteKeys :: "string list"
  IncludedPubSubChannels :: "string list"
  ExcludedPubSubChannels :: "string list"

definition CreateUser :: "string \<Rightarrow> bool \<Rightarrow> User" where
  "CreateUser username enabled =
     \<lparr>Username = username, Enabled = enabled,
      IncludedCategories = [''*''], ExcludedCategories = [],
      IncludedCommands = [''*''], ExcludedCommands = [],
      IncludedKeys = [''*''], ExcludedKeys = [],
      IncludedReadKeys = [''*''], IncludedWriteKeys = [''*''],
      IncludedPubSubChannels = [''*''], ExcludedPubSubChannels = []\<rparr>"

text \<open>
  A connection of the ACL: whether it is authenticated, and its user (a pointer, nil for
  a connection the map does not hold). Connections are named by numbers. Of the
  configuration the ACL reads \<open>RequirePass\<close>.
\<close>

record Connection =
  Authenticated :: bool
  User :: "User option"

record ACL =
  Users :: "User list"
  Connections :: "nat \<rightharpoonup> Connection"
  RequirePass :: bool

text \<open>
  \<open>utils.Command\<close> and \<open>utils.SubCommand\<close> as \<open>AuthorizeConnection\<close> reads them: the
  name, the categories and the key extraction function, which returns the keys (for a
  pub/sub command, the channels) or an error.
\<close>

record Command =
  Command :: string
  Categories :: "string list"
  KeyExtractionFunc :: "string list \<Rightarrow> error + string list"

text \<open>
  Modelled from the spec: the category constants of package \<open>utils\<close> are not under src/;
  their values are the category names of the command descriptors.
\<close>

definition PubSubCategory :: string where "PubSubCategory = ''pubsub''"
definition ReadCategory :: string where "ReadCategory = ''read''"
definition WriteCategory :: string where "WriteCategory = ''write''"

subsection \<open>The placeholder of src/acl/acl.go\<close>


subsection \<open>The implementation\<close>

text \<open>
  \<open>slices.ContainsFunc\<close> over a list of allowed entries, with the closure the checks
  share: an entry matches when it is the wildcard or the item itself; every entry that
  does not match appends a note to \<open>notAllowed\<close>. The result is whether an entry
  matched, and the notes.
\<close>

fun matchAny :: "string list \<Rightarrow> string \<Rightarrow> string \<Rightarrow> string list \<Rightarrow> bool \<times> string list" where
  "matchAny [] item note notAllowed = (False, notAllowed)"
| "matchAny (entry # entries) item note notAllowed =
     (if entry = ''*'' \<or> entry = item then (True, notAllowed)
      else matchAny entries item note (notAllowed @ [note]))"

text \<open>
  The outer \<open>slices.ContainsFunc\<close>: whether some item has a matching entry; it stops at
  the first that has. \<open>tag\<close> makes the note of an item.
\<close>

fun anyMatches ::
  "(string \<Rightarrow> string) \<Rightarrow> string list \<Rightarrow> string list \<Rightarrow> string list \<Rightarrow> bool \<times> string list" where
  "anyMatches tag [] entries notAllowed = (False, notAllowed)"
| "anyMatches tag (item # items) entries notAllowed =
     (case matchAny entries item (tag item) notAllowed of
        (True, na) \<Rightarrow> (True, na)
      | (False, na) \<Rightarrow> anyMatches tag items entries na)"

text \<open>The first category that an excluded entry names, if any (check 3).\<close>

fun firstExcluded :: "string list \<Rightarrow> string list \<Rightarrow> string option" where
  "firstExcluded [] excluded = None"
| "firstExcluded (category # categories) excluded =
     (if \<exists>e \<in> set excluded. e = ''*'' \<or> e = category then Some category
      else firstExcluded categories excluded)"

text \<open>\<open>%+v\<close> of a slice of strings.\<close>

fun joinWords :: "string list \<Rightarrow> string" where
  "joinWords [] = []"
| "joinWords [w] = w"
| "joinWords (w # ws) = w @ '' '' @ joinWords ws"

definition showList :: "string list \<Rightarrow> string" where
  "showList ws = ''['' @ joinWords ws @ '']''"

text \<open>A panic of the Go runtime inside the function.\<close>

datatype panic = NilPointerDereference | IndexOutOfRange

text \<open>
  The implemented \<open>AuthorizeConnection\<close> (the file of package acl that has the
  \<open>Connection\<close> type; under src/ it follows src/modules/set/commant_test.go). Its first part settles the command name, the categories and the
  keys: those of the command, or with a sub-command (\<open>None\<close> is the zero
  \<open>utils.SubCommand{}\<close>) the joined name, the categories of both and the keys of the
  sub-command. An error of a key extraction function is returned as it is.
\<close>

definition resolve ::
  "string list \<Rightarrow> Command \<Rightarrow> Command option \<Rightarrow> error + string \<times> string list \<times> string list" where
  "resolve cmd command subCommand =
     (case KeyExtractionFunc command cmd of
        Inl err \<Rightarrow> Inl err
      | Inr keys \<Rightarrow>
          (case subCommand of
             None \<Rightarrow> Inr (Command command, Categories command, keys)
           | Some sub \<Rightarrow>
               (case KeyExtractionFunc sub cmd of
                  Inl err \<Rightarrow> Inl err
                | Inr keys1 \<Rightarrow>
                    Inr (Command command @ ''|'' @ Command sub,
                         Categories command @ Categories sub, keys1))))"

text \<open>
  The checks, in the order of the source: \<open>auth\<close> is let through (\<open>strings.EqualFold\<close>
  with a word of the letters a, u, t, h compares the lower-cased name); then 1 the password,
  2 the included categories, 3 the excluded categories, 4 and 5 the commands, 6 the
  channel of a pub/sub command (which ends the function), 7 to 9 the keys. A connection
  the map does not hold is the zero \<open>Connection\<close>, whose user is nil: the first look at
  its lists panics. The result is the error or nil, or the panic.
\<close>

definition checkKeys ::
  "bool \<Rightarrow> (string \<Rightarrow> string) \<Rightarrow> string list \<Rightarrow> string list \<Rightarrow> string list \<Rightarrow> bool \<times> string list" where
  "checkKeys applies tag keys entries notAllowed =
     (if 0 < length keys \<and> applies then anyMatches tag keys entries notAllowed
      else (True, notAllowed))"

definition keysError :: "string list \<Rightarrow> error" where
  "keysError notAllowed =
     ErrorString (''not authorised to access the following keys '' @ showList notAllowed)"

definition categoriesError :: "string list \<Rightarrow> error" where
  "categoriesError notAllowed =
     ErrorString (''unauthorized access to the following categories: '' @ showList notAllowed)"

definition authorizeKeys :: "User \<Rightarrow> string list \<Rightarrow> string list \<Rightarrow> string list \<Rightarrow> error option" where
  "authorizeKeys user categories keys notAllowed =
     (case checkKeys True (\<lambda>k. ''%RW~'' @ k) keys (IncludedKeys user) notAllowed of
        (False, na7) \<Rightarrow> Some (keysError na7)
      | (True, na7) \<Rightarrow>
          (case checkKeys (ReadCategory \<in> set categories) (\<lambda>k. ''%R~'' @ k) keys
                  (IncludedReadKeys user) na7 of
             (False, na8) \<Rightarrow> Some (keysError na8)
           | (True, na8) \<Rightarrow>
               (case checkKeys (WriteCategory \<in> set categories) (\<lambda>k. ''%W~'' @ k) keys
                       (IncludedWriteKeys user) na8 of
                  (False, na9) \<Rightarrow> Some (keysError na9)
                | (True, na9) \<Rightarrow> None)))"

definition authorizeChannel :: "User \<Rightarrow> string list \<Rightarrow> panic + error option" where
  "authorizeChannel user keys =
     (case keys of
        [] \<Rightarrow> Inl IndexOutOfRange
      | channel # rest \<Rightarrow>
          if \<not> (\<exists>i \<in> set (IncludedPubSubChannels user). i \<in> set [''*'', channel]) then
            Inr (Some (ErrorString (''not authorised to access channel &'' @ channel)))
          else if \<exists>e \<in> set (ExcludedPubSubChannels user). e \<in> set [''*'', channel] then
            Inr (Some (ErrorString (''not authorised to access channel &'' @ channel)))
          else Inr None)"

definition authorizeUser ::
  "User \<Rightarrow> string \<Rightarrow> string list \<Rightarrow> string list \<Rightarrow> panic + error option" where
  "authorizeUser user comm categories keys =
     (case anyMatches (\<lambda>c. ''@'' @ c) categories (IncludedCategories user) [] of
        (False, na) \<Rightarrow> Inr (Some (categoriesError (if na = [] then [''@all''] else na)))
      | (True, na) \<Rightarrow>
          (case firstExcluded categories (ExcludedCategories user) of
             Some c \<Rightarrow> Inr (Some (categoriesError [''@'' @ c]))
           | None \<Rightarrow>
               if \<not> (\<exists>i \<in> set (IncludedCommands user). i = ''*'' \<or> i = comm) then
                 Inr (Some (ErrorString (''not authorised to run '' @ comm @ '' command'')))
               else if \<exists>e \<in> set (ExcludedCommands user). e = ''*'' \<or> e = comm then
                 Inr (Some (ErrorString (''not authorised to run '' @ comm @ '' command'')))
               else if PubSubCategory \<in> set categories then authorizeChannel user keys
               else Inr (authorizeKeys user categories keys na)))"

definition AuthorizeConnection_impl ::
  "ACL \<Rightarrow> nat \<Rightarrow> string list \<Rightarrow> Command \<Rightarrow> Command option \<Rightarrow> panic + error option" where
  "AuthorizeConnection_impl acl conn cmd command subCommand =
     (case resolve cmd command subCommand of
        Inl err \<Rightarrow> Inr (Some err)
      | Inr (comm, categories, keys) \<Rightarrow>
          if ToLower comm = ''auth'' then Inr None
          else
            (let connection = (case Connections acl conn of
                                 None \<Rightarrow> \<lparr>Authenticated = False, User = None\<rparr>
                               | Some c \<Rightarrow> c) in
             if RequirePass acl \<and> \<not> Authenticated connection then
               Inr (Some (ErrorString ''user must be authenticated''))
             else
               (case User connection of
                  None \<Rightarrow>
                    if categories = [] then Inr (Some (categoriesError [''@all'']))
                    else Inl NilPointerDereference
                | Some user \<Rightarrow> authorizeUser user comm categories keys)))"

subsection \<open>What the specification asks of \<open>authorize\<close>\<close>

text \<open>
  The conditions (a) to (e) in the words of the specification: an item is allowed by an
  inclusion list that holds it or the wildcard, and excluded by an exclusion list that
  holds it or the wildcard.
\<close>

definition listed :: "string list \<Rightarrow> string \<Rightarrow> bool" where
  "listed entries item = (\<exists>e \<in> set entries. e = ''*'' \<or> e = item)"


subsection \<open>An example\<close>

text \<open>
  A read command with two categories and the key extraction of \<open>GET\<close>; a user made by
  \<open>CreateUser\<close> and then restricted to the category read; an ACL that requires a password
  and holds one authenticated connection of that user.
\<close>

definition getKeyFunc :: "string list \<Rightarrow> error + string list" where
  "getKeyFunc cmd = (if length cmd \<noteq> 2 then Inl WrongArgs else Inr (drop 1 cmd))"

definition getCommand :: Command where
  "getCommand = \<lparr>Command = ''get'', Categories = [''read'', ''fast''], KeyExtractionFunc = getKeyFunc\<rparr>"

definition reader :: User where
  "reader = (CreateUser ''reader'' True)\<lparr>IncludedCategories := [''read'']\<rparr>"

definition acl1 :: ACL where
  "acl1 = \<lparr>Users = [reader], Connections = [0 \<mapsto> \<lparr>Authenticated = True, User = Some reader\<rparr>],
           RequirePass = True\<rparr>"




lemma firstExcluded_None:
  "firstExcluded categories excluded = None
    \<longleftrightarrow> (\<forall>c \<in> set categories. \<not> listed excluded c)"
  by (induction categories) (auto simp: listed_def)




lemma resolve_get: "resolve [''GET'', ''k''] getCommand None = Inr (''get'', [''read'', ''fast''], [''k''])"
  by (simp add: resolve_def getCommand_def getKeyFunc_def)

lemma run_acl1: "AuthorizeConnection_impl acl1 0 [''GET'', ''k''] getCommand None = Inr None"
  by (simp add: AuthorizeConnection_impl_def resolve_get ToLower_def toLowerChar_def acl1_def
        authorizeUser_def reader_def CreateUser_def firstExcluded_None listed_def
        PubSubCategory_def ReadCategory_def WriteCategory_def authorizeKeys_def checkKeys_def)


text \<open>
  One allowed category is enough for check 2: the user \<open>reader\<close> is not allowed the
  category fast, and the command of categories read and fast is authorized.
\<close>

lemma one_allowed_category_suffices:
  "\<not> listed (IncludedCategories reader) ''fast''
   \<and> AuthorizeConnection_impl acl1 0 [''GET'', ''k''] getCommand None = Inr None"
  using run_acl1 by (simp add: listed_def reader_def CreateUser_def)


section \<open>Adaptive typing (internal/utils.go)\<close>

subsection \<open>The numbers of math/big that \<open>AdaptType\<close> handles\<close>

text \<open>
  A \<open>*big.Float\<close> as \<open>AdaptType\<close> uses it: a finite number or an infinity (\<open>True\<close> for
  the negative one). \<open>IsInt\<close> says whether it is an integer; infinities are not.
  \<open>Int64\<close> truncates towards zero and, outside the range of \<open>int64\<close>, returns the
  nearest bound, together with an accuracy that \<open>AdaptType\<close> drops.
\<close>

datatype bigFloat = Finite rat | Infinite bool

fun IsInt :: "bigFloat \<Rightarrow> bool" where
  "IsInt (Finite r) = (of_int \<lfloor>r\<rfloor> = r)"
| "IsInt (Infinite neg) = False"

definition MinInt64 :: int where "MinInt64 = - 9223372036854775808"
definition MaxInt64 :: int where "MaxInt64 = 9223372036854775807"

fun Int64 :: "bigFloat \<Rightarrow> int" where
  "Int64 (Finite r) =
     (let t = (if 0 \<le> r then \<lfloor>r\<rfloor> else \<lceil>r\<rceil>)
      in if t < MinInt64 then MinInt64 else if MaxInt64 < t then MaxInt64 else t)"
| "Int64 (Infinite neg) = (if neg then MinInt64 else MaxInt64)"

subsection \<open>\<open>AdaptType\<close>\<close>

text \<open>
  The result of \<open>AdaptType\<close> is the string itself, an \<open>int\<close> (64 bits wide, so the
  conversion from \<open>int64\<close> changes nothing) or a \<open>float64\<close>, which is kept as the number
  \<open>Float64\<close> rounds. \<open>big.ParseFloat(s, 10, 256, _)\<close> belongs to the Go library and is
  the parameter \<open>ParseFloat\<close>: \<open>None\<close> where it returns an error.
\<close>

datatype adapted = AString string | AInt int | AFloat bigFloat

definition AdaptType :: "(string \<Rightarrow> bigFloat option) \<Rightarrow> string \<Rightarrow> adapted" where
  "AdaptType ParseFloat s =
     (case ParseFloat s of
        None \<Rightarrow> AString s
      | Some n \<Rightarrow> if IsInt n then AInt (Int64 n) else AFloat n)"

text \<open>
  What \<open>big.ParseFloat(s, 10, 256, _)\<close> yields on a token made of decimal digits only,
  at most 77 of them: the integer they denote, exactly, since a mantissa of 256 bits
  holds every integer below \<open>10 ^ 77\<close>. On any other token this function is \<open>None\<close>
  and stands for nothing.
\<close>

definition digitValue :: "char \<Rightarrow> nat option" where
  "digitValue c = map_of (zip ''0123456789'' [0, 1, 2, 3, 4, 5, 6, 7, 8, 9]) c"

fun digitsValue :: "nat \<Rightarrow> string \<Rightarrow> nat option" where
  "digitsValue acc [] = Some acc"
| "digitsValue acc (c # cs) =
     (case digitValue c of None \<Rightarrow> None | Some d \<Rightarrow> digitsValue (10 * acc + d) cs)"

definition parseDecimalDigits :: "string \<Rightarrow> bigFloat option" where
  "parseDecimalDigits s =
     (if s = [] \<or> 77 < length s then None
      else map_option (\<lambda>n. Finite (of_nat n)) (digitsValue 0 s))"

lemma parse_two_to_63:
  "parseDecimalDigits ''9223372036854775808'' = Some (Finite 9223372036854775808)"
  by (simp add: parseDecimalDigits_def digitValue_def)

text \<open>
  C7, the code at the token 9223372036854775808, which is \<open>2 ^ 63\<close>, one more than the
  greatest \<open>int64\<close>. The parser yields the number exactly; it is an integer, \<open>Int64\<close>
  returns the greatest \<open>int64\<close>, and \<open>AdaptType\<close> returns that as an integer: the token
  does not become a float.
\<close>

theorem AdaptType_overflow_saturates:
  "ParseFloat ''9223372036854775808'' = Some (Finite 9223372036854775808)
    \<Longrightarrow> AdaptType ParseFloat ''9223372036854775808'' = AInt 9223372036854775807"
  by (simp add: AdaptType_def MinInt64_def MaxInt64_def)

theorem AdaptType_overflow_saturates_witness:
  "parseDecimalDigits ''9223372036854775808'' = Some (Finite 9223372036854775808)
   \<and> AdaptType parseDecimalDigits ''9223372036854775808'' = AInt 9223372036854775807"
  using AdaptType_overflow_saturates[of parseDecimalDigits] parse_two_to_63 by simp

end
